theory Spec2Isabelle
  imports Main "HOL-Library.Word"
begin

section \<open>Values and control flow of the host language\<close>

text \<open>
  The script is a set of event listeners over a few closure variables and DOM
  properties. Each listener is embedded as a function from the state before the
  event to the state after it. A listener that throws does not roll anything
  back, so a completion carries the state reached in both cases.
\<close>

datatype js_error = TypeError | DOMException

datatype 's completion = Returns 's | Throws js_error 's

fun state_of :: "'s completion \<Rightarrow> 's" where
  "state_of (Returns s) = s"
| "state_of (Throws e s) = s"

text \<open>
  The operator \<^verbatim>\<open>%\<close> on integral numbers: the remainder of the truncated division,
  with the sign of the dividend. The listeners guard every use against a zero divisor.
\<close>

definition js_rem :: "int \<Rightarrow> int \<Rightarrow> int" where
  "js_rem a b = sgn a * (\<bar>a\<bar> mod \<bar>b\<bar>)"

section \<open>Gallery modal: data model\<close>

record gallery_item =
  type :: string
  src :: string
  alt :: "string option"
  caption :: "string option"

type_synonym manifest = "string \<rightharpoonup> gallery_item list"

text \<open>
  \<^verbatim>\<open>allGalleries[category]\<close> is a property read on a plain object. It yields the
  item array when the manifest has the key, and otherwise whatever the object inherits
  under that name: the members of Object.prototype are functions (with their declared
  number of parameters as \<^verbatim>\<open>length\<close>) and, for \<^verbatim>\<open>__proto__\<close>, the prototype object
  itself. The variable \<^verbatim>\<open>currentGallery\<close> therefore holds one of these three kinds
  of value.
\<close>

datatype js_value = JSArray "gallery_item list" | JSFunction nat | JSObject

definition object_prototype :: "string \<Rightarrow> js_value option" where
  "object_prototype name =
     (if name = ''constructor'' then Some (JSFunction 1)
      else if name \<in> set [''hasOwnProperty'', ''isPrototypeOf'', ''propertyIsEnumerable'',
                            ''__lookupGetter__'', ''__lookupSetter__''] then Some (JSFunction 1)
      else if name \<in> set [''toString'', ''toLocaleString'', ''valueOf''] then Some (JSFunction 0)
      else if name \<in> set [''__defineGetter__'', ''__defineSetter__''] then Some (JSFunction 2)
      else if name = ''__proto__'' then Some JSObject
      else None)"

definition get_property :: "manifest \<Rightarrow> string \<Rightarrow> js_value option" where
  "get_property m name =
     (case m name of Some xs \<Rightarrow> Some (JSArray xs) | None \<Rightarrow> object_prototype name)"

text \<open>\<^verbatim>\<open>v || []\<close>: arrays (also empty ones), functions and objects are truthy.\<close>

definition or_empty :: "js_value option \<Rightarrow> js_value" where
  "or_empty v = (case v of None \<Rightarrow> JSArray [] | Some x \<Rightarrow> x)"

fun js_length :: "js_value \<Rightarrow> int option" where
  "js_length (JSArray xs) = Some (int (length xs))"
| "js_length (JSFunction n) = Some (int n)"
| "js_length JSObject = None"

text \<open>\<^verbatim>\<open>!currentGallery.length\<close>: true for \<^verbatim>\<open>undefined\<close> and for 0.\<close>

definition no_length :: "js_value \<Rightarrow> bool" where
  "no_length g = (case js_length g of None \<Rightarrow> True | Some n \<Rightarrow> n = 0)"

text \<open>\<^verbatim>\<open>currentGallery[currentIndex]\<close>; \<open>None\<close> is \<^verbatim>\<open>undefined\<close>.\<close>

fun js_index :: "js_value \<Rightarrow> int \<Rightarrow> gallery_item option" where
  "js_index (JSArray xs) i = (if 0 \<le> i \<and> i < int (length xs) then Some (xs ! nat i) else None)"
| "js_index (JSFunction n) i = None"
| "js_index JSObject i = None"

text \<open>
  What the items container shows: the markup last assigned to \<^verbatim>\<open>innerHTML\<close>, or the
  wrapper built by \<^verbatim>\<open>showGalleryItem\<close>, which holds one element for the item and an
  optional caption paragraph. Presentational style properties are not part of the model.
\<close>

datatype element =
    Img string string
  | Video string
  | Anchor string string
  | Placeholder string

datatype content = InnerHTML string | Wrapper element "string option"

datatype gallery_effect = ConsoleError string | VideoPause

record gallery_state =
  allGalleries :: manifest
  currentGallery :: js_value
  currentIndex :: int
  currentCategory :: string
  galleryItemsContainer :: content
  galleryModal_display :: string
  body_overflow :: string
  gallery_effects :: "gallery_effect list"

text \<open>
  The browser around the listeners: whether markup assigned to \<^verbatim>\<open>innerHTML\<close> parses
  to something containing a video element, and whether \<^verbatim>\<open>video.pause()\<close> throws.
\<close>

record browser =
  parses_video :: "string \<Rightarrow> bool"
  pause_throws :: bool

text \<open>Which of the optional controls exist in the page (\<^verbatim>\<open>galleryClose?.\<close> and so on).\<close>

record controls =
  galleryClose :: bool
  galleryPrev :: bool
  galleryNext :: bool

text \<open>
  A project card: its \<^verbatim>\<open>data-category\<close>, \<^verbatim>\<open>data-project\<close> and \<^verbatim>\<open>data-gallery\<close>
  attributes (read through \<^verbatim>\<open>dataset\<close>), its inline \<^verbatim>\<open>style.display\<close> and whether its
  class list holds \<^verbatim>\<open>fade-in\<close>.
\<close>

record card =
  data_category :: "string option"
  data_project :: "string option"
  data_gallery :: "string option"
  style_display :: string
  fade_in :: bool

text \<open>
  \<^verbatim>\<open>initGalleryModal\<close> sets the gallery up only when the modal and the items container
  exist. The state it starts from: the closure variables as it initialises them, an
  empty container and no inline style on the modal or the body.
\<close>

definition init_gallery :: gallery_state where
  "init_gallery =
     \<lparr>allGalleries = Map.empty, currentGallery = JSArray [], currentIndex = 0,
      currentCategory = '''', galleryItemsContainer = InnerHTML '''',
      galleryModal_display = '''', body_overflow = '''', gallery_effects = []\<rparr>"

section \<open>Gallery modal: listeners\<close>

datatype manifest_result = NetworkError | InvalidJSON | Loaded "manifest option"

text \<open>
  The promise chain of the manifest fetch. \<open>Loaded None\<close> is a body that parses to a
  falsy value such as \<^verbatim>\<open>null\<close>.
\<close>

definition manifest_settled :: "manifest_result \<Rightarrow> gallery_state \<Rightarrow> gallery_state" where
  "manifest_settled r s =
     (case r of
        Loaded data \<Rightarrow>
          s\<lparr>allGalleries := (case data of None \<Rightarrow> Map.empty | Some m \<Rightarrow> m)\<rparr>
      | _ \<Rightarrow>
          s\<lparr>gallery_effects := gallery_effects s @ [ConsoleError ''Failed to load gallery.json''],
            allGalleries := Map.empty\<rparr>)"

definition or_string :: "string option \<Rightarrow> string \<Rightarrow> string" where
  "or_string v d = (case v of None \<Rightarrow> d | Some x \<Rightarrow> if x = [] then d else x)"

definition create_element :: "string \<Rightarrow> gallery_item \<Rightarrow> element" where
  "create_element category item =
     (if type item = ''image'' then Img (src item) (or_string (alt item) (category @ '' image''))
      else if type item = ''video'' then Video (src item)
      else if type item = ''application'' \<or> type item = ''pdf''
        then Anchor (src item) (or_string (caption item) ''View Document'')
      else Placeholder ''Unsupported media type'')"

definition caption_of :: "gallery_item \<Rightarrow> string option" where
  "caption_of item =
     (case caption item of None \<Rightarrow> None | Some c \<Rightarrow> if c = [] then None else Some c)"

definition showGalleryItem :: "gallery_state \<Rightarrow> gallery_state completion" where
  "showGalleryItem s =
     (let s1 = s\<lparr>galleryItemsContainer := InnerHTML ''''\<rparr> in
      if no_length (currentGallery s1) then Returns s1
      else
        (case js_index (currentGallery s1) (currentIndex s1) of
           None \<Rightarrow> Throws TypeError s1
         | Some item \<Rightarrow>
             Returns (s1\<lparr>galleryItemsContainer :=
               Wrapper (create_element (currentCategory s1) item) (caption_of item)\<rparr>)))"

definition no_items_html :: "string \<Rightarrow> string" where
  \<open>no_items_html category =
     ''<div class="image-placeholder" style="padding:2rem;">No gallery items found for "''
       @ category @ ''"</div>''\<close>

text \<open>\<^verbatim>\<open>card.dataset.project || card.dataset.gallery\<close>\<close>

definition card_category :: "card \<Rightarrow> string option" where
  "card_category c =
     (case data_project c of
        None \<Rightarrow> data_gallery c
      | Some p \<Rightarrow> if p = [] then data_gallery c else Some p)"

text \<open>
  The click listener of a card; \<open>thumbnail\<close> says that the click target carries the
  class \<^verbatim>\<open>certificate-thumbnail\<close>.
\<close>

definition card_onclick :: "bool \<Rightarrow> card \<Rightarrow> gallery_state \<Rightarrow> gallery_state completion" where
  "card_onclick thumbnail c s =
     (if thumbnail then Returns s
      else
        (case card_category c of
           None \<Rightarrow> Returns s
         | Some category \<Rightarrow>
             if category = [] then Returns s
             else
               (let s1 = s\<lparr>currentCategory := category,
                           currentGallery := or_empty (get_property (allGalleries s) category)\<rparr>
                in
                if no_length (currentGallery s1) then
                  Returns (s1\<lparr>galleryItemsContainer := InnerHTML (no_items_html category),
                             galleryModal_display := ''flex'',
                             body_overflow := ''hidden''\<rparr>)
                else
                  (case showGalleryItem (s1\<lparr>currentIndex := 0\<rparr>) of
                     Throws e s2 \<Rightarrow> Throws e s2
                   | Returns s2 \<Rightarrow>
                       Returns (s2\<lparr>galleryModal_display := ''flex'',
                                  body_overflow := ''hidden''\<rparr>)))))"

text \<open>\<^verbatim>\<open>galleryItemsContainer.querySelector("video")\<close> finds an element or not.\<close>

fun has_video :: "browser \<Rightarrow> content \<Rightarrow> bool" where
  "has_video b (InnerHTML markup) = parses_video b markup"
| "has_video b (Wrapper (Video u) c) = True"
| "has_video b (Wrapper el c) = False"

definition video_pause :: "browser \<Rightarrow> gallery_state \<Rightarrow> gallery_state completion" where
  "video_pause b s =
     (let s1 = s\<lparr>gallery_effects := gallery_effects s @ [VideoPause]\<rparr> in
      if pause_throws b then Throws DOMException s1 else Returns s1)"

definition closeGallery :: "browser \<Rightarrow> gallery_state \<Rightarrow> gallery_state" where
  "closeGallery b s =
     (let s1 = (if has_video b (galleryItemsContainer s)
                then (case video_pause b s of Throws e s' \<Rightarrow> s' | Returns s' \<Rightarrow> s')
                else s)
      in s1\<lparr>galleryModal_display := ''none'',
            body_overflow := ''auto'',
            galleryItemsContainer := InnerHTML '''',
            currentGallery := JSArray [],
            currentIndex := 0,
            currentCategory := ''''\<rparr>)"

definition galleryPrev_onclick :: "gallery_state \<Rightarrow> gallery_state completion" where
  "galleryPrev_onclick s =
     (case js_length (currentGallery s) of
        None \<Rightarrow> Returns s
      | Some n \<Rightarrow>
          if n = 0 then Returns s
          else showGalleryItem (s\<lparr>currentIndex := js_rem (currentIndex s - 1 + n) n\<rparr>))"

definition galleryNext_onclick :: "gallery_state \<Rightarrow> gallery_state completion" where
  "galleryNext_onclick s =
     (case js_length (currentGallery s) of
        None \<Rightarrow> Returns s
      | Some n \<Rightarrow>
          if n = 0 then Returns s
          else showGalleryItem (s\<lparr>currentIndex := js_rem (currentIndex s + 1) n\<rparr>))"

text \<open>
  A click on a control runs its listener when the control exists. The dispatch reports
  an exception of the listener and does not pass it on to the caller of \<^verbatim>\<open>click()\<close>.
\<close>

definition click :: "bool \<Rightarrow> (gallery_state \<Rightarrow> gallery_state completion) \<Rightarrow> gallery_state \<Rightarrow> gallery_state" where
  "click present listener s = (if present then state_of (listener s) else s)"

definition galleryModal_onclick :: "browser \<Rightarrow> bool \<Rightarrow> gallery_state \<Rightarrow> gallery_state" where
  "galleryModal_onclick b target_is_modal s = (if target_is_modal then closeGallery b s else s)"

definition gallery_onkeydown :: "browser \<Rightarrow> controls \<Rightarrow> string \<Rightarrow> gallery_state \<Rightarrow> gallery_state" where
  "gallery_onkeydown b ctl key s =
     (if galleryModal_display s = ''flex'' then
        (if key = ''Escape'' then closeGallery b s
         else if key = ''ArrowRight'' then click (galleryNext ctl) galleryNext_onclick s
         else if key = ''ArrowLeft'' then click (galleryPrev ctl) galleryPrev_onclick s
         else s)
      else s)"

datatype gallery_event =
    CardClick bool card
  | PrevClick
  | NextClick
  | CloseClick
  | ModalClick bool
  | KeyDown string
  | ManifestSettled manifest_result

fun gallery_step :: "browser \<Rightarrow> controls \<Rightarrow> gallery_event \<Rightarrow> gallery_state \<Rightarrow> gallery_state" where
  "gallery_step b ctl (CardClick thumbnail c) s = state_of (card_onclick thumbnail c s)"
| "gallery_step b ctl PrevClick s = click (galleryPrev ctl) galleryPrev_onclick s"
| "gallery_step b ctl NextClick s = click (galleryNext ctl) galleryNext_onclick s"
| "gallery_step b ctl CloseClick s = (if galleryClose ctl then closeGallery b s else s)"
| "gallery_step b ctl (ModalClick target_is_modal) s = galleryModal_onclick b target_is_modal s"
| "gallery_step b ctl (KeyDown key) s = gallery_onkeydown b ctl key s"
| "gallery_step b ctl (ManifestSettled r) s = manifest_settled r s"

definition gallery_run :: "browser \<Rightarrow> controls \<Rightarrow> gallery_event list \<Rightarrow> gallery_state \<Rightarrow> gallery_state" where
  "gallery_run b ctl evs s = fold (gallery_step b ctl) evs s"

text \<open>
  The session invariant: when \<^verbatim>\<open>currentGallery.length\<close> is a positive number, the
  index is a position below it.
\<close>

definition gallery_inv :: "gallery_state \<Rightarrow> bool" where
  "gallery_inv s =
     (case js_length (currentGallery s) of
        None \<Rightarrow> True
      | Some n \<Rightarrow> n = 0 \<or> (0 \<le> currentIndex s \<and> currentIndex s < n))"

section \<open>Filter controller\<close>

record filter_button =
  data_filter :: "string option"
  active :: bool

record filter_section =
  filterBtns :: "filter_button list"
  items :: "card list"

text \<open>
  \<^verbatim>\<open>item.dataset.category || item.dataset.project || item.dataset.gallery || ""\<close>:
  the first of the three attributes that is set to a non-empty string.
\<close>

fun first_truthy :: "string option list \<Rightarrow> string" where
  "first_truthy [] = ''''"
| "first_truthy (None # vs) = first_truthy vs"
| "first_truthy (Some v # vs) = (if v = [] then first_truthy vs else v)"

definition item_cat :: "card \<Rightarrow> string" where
  "item_cat item = first_truthy [data_category item, data_project item, data_gallery item]"

definition apply_filter :: "string option \<Rightarrow> card \<Rightarrow> card" where
  "apply_filter filter_value item =
     (if filter_value = Some ''all'' \<or> Some (item_cat item) = filter_value
      then item\<lparr>style_display := '''', fade_in := True\<rparr>
      else item\<lparr>style_display := ''none'', fade_in := False\<rparr>)"

text \<open>
  The click listener of the button at position \<open>i\<close>. \<^verbatim>\<open>initFilters\<close> attaches no
  listener when the section has no button or no item.
\<close>

definition filter_onclick :: "nat \<Rightarrow> filter_section \<Rightarrow> filter_section" where
  "filter_onclick i sec =
     (if filterBtns sec = [] \<or> items sec = [] \<or> length (filterBtns sec) \<le> i then sec
      else
        (let btns = (map (\<lambda>b. b\<lparr>active := False\<rparr>) (filterBtns sec))
                      [i := (filterBtns sec ! i)\<lparr>active := True\<rparr>];
             filter_value = data_filter (filterBtns sec ! i)
         in \<lparr>filterBtns = btns, items = map (apply_filter filter_value) (items sec)\<rparr>))"

section \<open>Contact form\<close>

text \<open>
  A parsed response body. The number type is left open: \<open>0\<close> of the type stands for
  the numbers that are falsy. Of an object, the members are listed in the order of the
  text, and a later member of the same name replaces an earlier one.
\<close>

datatype 'n json =
    JNull
  | JBool bool
  | JNum 'n
  | JStr string
  | JArr "'n json list"
  | JObj "(string \<times> 'n json) list"

fun truthy :: "'n::zero json \<Rightarrow> bool" where
  "truthy JNull = False"
| "truthy (JBool b) = b"
| "truthy (JNum n) = (n \<noteq> 0)"
| "truthy (JStr s) = (s \<noteq> [])"
| "truthy (JArr vs) = True"
| "truthy (JObj kvs) = True"

text \<open>\<^verbatim>\<open>json.message\<close>; \<open>None\<close> is \<^verbatim>\<open>undefined\<close>.\<close>

fun get_message :: "'n json \<Rightarrow> 'n json option" where
  "get_message (JObj kvs) = map_of (rev kvs) ''message''"
| "get_message v = None"

datatype 'n body = NotJSON | Body "'n json"

datatype 'n fetch_result = Rejected | Response bool "'n body"

datatype 'n form_effect =
    Post string "string \<rightharpoonup> string"
  | Alert "'n json"
  | FormConsoleError string

record contact_form =
  action :: "string option"
  entries :: "(string \<times> string) list"
  default_entries :: "(string \<times> string) list"
  loading :: bool

definition endpoint :: "contact_form \<Rightarrow> string" where
  "endpoint form = or_string (action form) ''#''"

text \<open>\<^verbatim>\<open>Object.fromEntries(formData.entries())\<close>: the last entry of a name stays.\<close>

definition dataObj :: "contact_form \<Rightarrow> string \<rightharpoonup> string" where
  "dataObj form = map_of (rev (entries form))"

text \<open>The message shown for a response that is not ok.\<close>

definition error_message :: "'n::zero body \<Rightarrow> 'n json" where
  "error_message b =
     (let msg = JStr ''Error sending message. Please try again later.'' in
      case b of
        NotJSON \<Rightarrow> msg
      | Body json \<Rightarrow>
          if truthy json then
            (case get_message json of
               None \<Rightarrow> msg
             | Some m \<Rightarrow> if truthy m then m else msg)
          else msg)"

text \<open>
  The submit listener, from the submit event to the end of its \<^verbatim>\<open>finally\<close> block,
  given how the request ended. It yields the form afterwards and what it did, in order.
\<close>

definition contactForm_onsubmit ::
  "'n::zero fetch_result \<Rightarrow> contact_form \<Rightarrow> contact_form \<times> 'n form_effect list" where
  "contactForm_onsubmit r form =
     (let form1 = form\<lparr>loading := True\<rparr>;
          request = Post (endpoint form) (dataObj form)
      in case r of
           Response ok b \<Rightarrow>
             if ok then
               (form1\<lparr>entries := default_entries form1, loading := False\<rparr>,
                [request, Alert (JStr ''Your message has been sent successfully!'')])
             else (form1\<lparr>loading := False\<rparr>, [request, Alert (error_message b)])
         | Rejected \<Rightarrow>
             (form1\<lparr>loading := False\<rparr>,
              [request, FormConsoleError ''Contact form error:'',
               Alert (JStr ''An error occurred while sending your message. Please try again.'')]))"

fun alerts :: "'n form_effect list \<Rightarrow> 'n json list" where
  "alerts [] = []"
| "alerts (Alert m # es) = m # alerts es"
| "alerts (e # es) = alerts es"

section \<open>Certificate modal\<close>

text \<open>
  Titles are processed character by character, so they are kept as the sequences of
  16-bit code units that the regular expressions of the script work on.
\<close>

type_synonym jsstring = "16 word list"

definition ascii :: "string \<Rightarrow> jsstring" where
  "ascii s = map (\<lambda>c. of_nat (of_char c)) s"

text \<open>The class \<^verbatim>\<open>\s\<close>: white space and line terminators.\<close>

definition is_space :: "16 word \<Rightarrow> bool" where
  "is_space c =
     ((0x09 \<le> c \<and> c \<le> 0x0D) \<or> c = 0x20 \<or> c = 0xA0 \<or> c = 0x1680 \<or>
      (0x2000 \<le> c \<and> c \<le> 0x200A) \<or> c = 0x2028 \<or> c = 0x2029 \<or> c = 0x202F \<or>
      c = 0x205F \<or> c = 0x3000 \<or> c = 0xFEFF)"

text \<open>The class \<^verbatim>\<open>\w\<close>: digits, letters and the underscore.\<close>

definition is_word_char :: "16 word \<Rightarrow> bool" where
  "is_word_char c =
     ((0x30 \<le> c \<and> c \<le> 0x39) \<or> (0x41 \<le> c \<and> c \<le> 0x5A) \<or> c = 0x5F \<or>
      (0x61 \<le> c \<and> c \<le> 0x7A))"

text \<open>A character that \<^verbatim>\<open>[^\w\-_.]\<close> does not match.\<close>

definition kept :: "16 word \<Rightarrow> bool" where
  "kept c = (is_word_char c \<or> c = 0x2D \<or> c = 0x5F \<or> c = 0x2E)"

text \<open>\<^verbatim>\<open>.replace(/\s+/g, "_")\<close>: every maximal run of white space becomes one underscore.\<close>

function replace_spaces :: "jsstring \<Rightarrow> jsstring" where
  "replace_spaces [] = []"
| "replace_spaces (c # cs) =
     (if is_space c then 0x5F # replace_spaces (dropWhile is_space cs)
      else c # replace_spaces cs)"
  by pat_completeness auto
termination
  by (relation "measure length") (auto simp: length_dropWhile_le less_Suc_eq_le)

definition safeTitle :: "jsstring \<Rightarrow> jsstring" where
  "safeTitle title =
     filter kept (replace_spaces (if title = [] then ascii ''certificate'' else title))"

definition download_name :: "jsstring \<Rightarrow> jsstring" where
  "download_name title = safeTitle title @ ascii ''.jpg''"

text \<open>\<^verbatim>\<open>textContent.trim()\<close>\<close>

definition js_trim :: "jsstring \<Rightarrow> jsstring" where
  "js_trim t = rev (dropWhile is_space (rev (dropWhile is_space t)))"

record cert_state =
  currentCertificateUrl :: string
  currentCertificateTitle :: jsstring
  certImg_src :: string
  certTitle_textContent :: jsstring
  certModal_display :: string
  certModal_opacity :: string
  cert_body_overflow :: string
  downloads :: "(string \<times> jsstring) list"

definition init_cert :: cert_state where
  "init_cert =
     \<lparr>currentCertificateUrl = '''', currentCertificateTitle = [], certImg_src = '''',
      certTitle_textContent = [], certModal_display = '''', certModal_opacity = ''0'',
      cert_body_overflow = '''', downloads = []\<rparr>"

text \<open>
  The click listener of a thumbnail with source \<open>img_src\<close>; \<open>heading\<close> is the text of
  the heading of the card around it, when there is one, and \<open>has_title\<close> says whether
  the element \<^verbatim>\<open>certificate-modal-title\<close> exists. The fade-in runs in a timer of its own.
\<close>

definition thumbnail_onclick ::
  "bool \<Rightarrow> string \<Rightarrow> jsstring option \<Rightarrow> cert_state \<Rightarrow> cert_state completion" where
  "thumbnail_onclick has_title img_src heading s =
     (let title = (case heading of None \<Rightarrow> ascii ''Certificate'' | Some h \<Rightarrow> js_trim h);
          s1 = s\<lparr>currentCertificateUrl := img_src, currentCertificateTitle := title,
                 certImg_src := img_src\<rparr>
      in if has_title then
           Returns (s1\<lparr>certTitle_textContent := title, certModal_display := ''block'',
                      cert_body_overflow := ''hidden''\<rparr>)
         else Throws TypeError s1)"

definition fade_in_timeout :: "cert_state \<Rightarrow> cert_state" where
  "fade_in_timeout s = s\<lparr>certModal_opacity := ''1''\<rparr>"

text \<open>\<^verbatim>\<open>closeCertificateModal\<close> and the callback of the timer it starts.\<close>

definition closeCertificateModal :: "cert_state \<Rightarrow> cert_state" where
  "closeCertificateModal s = s\<lparr>certModal_opacity := ''0''\<rparr>"

definition close_timeout :: "cert_state \<Rightarrow> cert_state" where
  "close_timeout s =
     s\<lparr>certModal_display := ''none'', cert_body_overflow := ''auto'', certImg_src := '''',
       currentCertificateUrl := '''', currentCertificateTitle := []\<rparr>"

definition download_onclick :: "cert_state \<Rightarrow> cert_state" where
  "download_onclick s =
     (if currentCertificateUrl s \<noteq> [] then
        s\<lparr>downloads := downloads s @
            [(currentCertificateUrl s, download_name (currentCertificateTitle s))]\<rparr>
      else s)"

text \<open>
  The sanitization as the specification words it: white space collapsed to underscores,
  every non-word character stripped, \<^verbatim>\<open>.jpg\<close> appended.
\<close>

definition spec_download_name :: "jsstring \<Rightarrow> jsstring" where
  "spec_download_name title = filter is_word_char (replace_spaces title) @ ascii ''.jpg''"

section \<open>Sample page\<close>

text \<open>A small manifest, page and form on which the theorems below are instantiated.\<close>

definition demo_items :: "gallery_item list" where
  "demo_items =
     [\<lparr>type = ''image'', src = ''arm.png'', alt = None, caption = Some ''Robot arm''\<rparr>,
      \<lparr>type = ''video'', src = ''arm.mp4'', alt = None, caption = None\<rparr>,
      \<lparr>type = ''pdf'', src = ''report.pdf'', alt = None, caption = None\<rparr>]"

definition demo_manifest :: manifest where
  "demo_manifest = [''robots'' \<mapsto> demo_items]"

definition demo_card :: card where
  "demo_card =
     \<lparr>data_category = None, data_project = Some ''robots'', data_gallery = None,
      style_display = '''', fade_in = False\<rparr>"

definition demo_browser :: browser where
  "demo_browser = \<lparr>parses_video = (\<lambda>markup. False), pause_throws = True\<rparr>"

definition demo_controls :: controls where
  "demo_controls = \<lparr>galleryClose = True, galleryPrev = True, galleryNext = True\<rparr>"

definition demo_open :: gallery_state where
  "demo_open =
     \<lparr>allGalleries = demo_manifest, currentGallery = JSArray demo_items, currentIndex = 0,
      currentCategory = ''robots'',
      galleryItemsContainer = Wrapper (Img ''arm.png'' ''robots image'') (Some ''Robot arm''),
      galleryModal_display = ''flex'', body_overflow = ''hidden'', gallery_effects = []\<rparr>"

definition demo_video :: gallery_state where
  "demo_video =
     demo_open\<lparr>currentIndex := 1, galleryItemsContainer := Wrapper (Video ''arm.mp4'') None\<rparr>"

definition demo_events :: "gallery_event list" where
  "demo_events =
     [ManifestSettled (Loaded (Some demo_manifest)), CardClick False demo_card,
      NextClick, KeyDown ''ArrowRight'', NextClick, PrevClick]"

definition demo_section :: filter_section where
  "demo_section =
     \<lparr>filterBtns =
        [\<lparr>data_filter = Some ''all'', active = True\<rparr>,
         \<lparr>data_filter = Some ''web'', active = False\<rparr>],
      items =
        [\<lparr>data_category = Some ''web'', data_project = None, data_gallery = None,
          style_display = '''', fade_in = False\<rparr>,
         \<lparr>data_category = None, data_project = Some ''robots'', data_gallery = None,
          style_display = ''none'', fade_in = False\<rparr>]\<rparr>"

definition demo_form :: contact_form where
  "demo_form =
     \<lparr>action = Some ''/send'', entries = [(''email'', ''me''), (''text'', ''hello'')],
      default_entries = [(''email'', ''''), (''text'', '''')], loading = False\<rparr>"

definition constructor_card :: card where
  "constructor_card =
     \<lparr>data_category = None, data_project = Some ''constructor'', data_gallery = None,
      style_display = '''', fade_in = False\<rparr>"

section \<open>Gallery modal: navigation\<close>

lemma js_rem_nonneg: "0 \<le> a \<Longrightarrow> 0 < b \<Longrightarrow> js_rem a b = a mod b"
  by (cases "a = 0") (simp_all add: js_rem_def)

lemma js_length_nonneg: "js_length g = Some n \<Longrightarrow> 0 \<le> n"
  by (cases g) auto

lemma showGalleryItem_keeps:
  "currentIndex (state_of (showGalleryItem s)) = currentIndex s"
  "currentGallery (state_of (showGalleryItem s)) = currentGallery s"
  "allGalleries (state_of (showGalleryItem s)) = allGalleries s"
  "currentCategory (state_of (showGalleryItem s)) = currentCategory s"
  "galleryModal_display (state_of (showGalleryItem s)) = galleryModal_display s"
  "body_overflow (state_of (showGalleryItem s)) = body_overflow s"
  "gallery_effects (state_of (showGalleryItem s)) = gallery_effects s"
  by (simp_all add: showGalleryItem_def Let_def split: option.splits)

lemma next_index:
  assumes "js_length (currentGallery s) = Some n" "0 < n" "0 \<le> currentIndex s"
  shows "currentIndex (state_of (galleryNext_onclick s)) = (currentIndex s + 1) mod n"
  using assms by (simp add: galleryNext_onclick_def showGalleryItem_keeps js_rem_nonneg)

lemma prev_index:
  assumes "js_length (currentGallery s) = Some n" "0 < n" "0 \<le> currentIndex s"
  shows "currentIndex (state_of (galleryPrev_onclick s)) = (currentIndex s - 1) mod n"
  using assms by (simp add: galleryPrev_onclick_def showGalleryItem_keeps js_rem_nonneg)

lemma next_gallery:
  "currentGallery (state_of (galleryNext_onclick s)) = currentGallery s"
  by (simp add: galleryNext_onclick_def showGalleryItem_keeps split: option.splits)

lemma prev_gallery:
  "currentGallery (state_of (galleryPrev_onclick s)) = currentGallery s"
  by (simp add: galleryPrev_onclick_def showGalleryItem_keeps split: option.splits)

text \<open>After \<open>k\<close> clicks on the next control the index has advanced by \<open>k\<close> modulo the length.\<close>

lemma next_iterated:
  assumes "js_length (currentGallery s) = Some n" "0 \<le> currentIndex s" "currentIndex s < n"
  shows "currentGallery (((\<lambda>t. state_of (galleryNext_onclick t)) ^^ k) s) = currentGallery s \<and>
         currentIndex (((\<lambda>t. state_of (galleryNext_onclick t)) ^^ k) s) = (currentIndex s + int k) mod n"
proof (induction k)
  case 0
  show ?case using assms by simp
next
  case (Suc k)
  let ?t = "((\<lambda>t. state_of (galleryNext_onclick t)) ^^ k) s"
  from Suc.IH have g: "currentGallery ?t = currentGallery s"
    and i: "currentIndex ?t = (currentIndex s + int k) mod n" by simp_all
  have n: "0 < n" using assms by simp
  have "0 \<le> currentIndex ?t" using i n by simp
  with g assms n have "currentIndex (state_of (galleryNext_onclick ?t)) = (currentIndex ?t + 1) mod n"
    by (simp add: next_index)
  also have "\<dots> = (currentIndex s + int (Suc k)) mod n"
    unfolding i by (simp add: mod_simps ac_simps)
  finally show ?case by (simp add: next_gallery g)
qed

text \<open>
  C1. Navigation is cyclic. For a gallery holding a non-empty sequence of \<open>n\<close> items and
  an index within it, \<open>n\<close> clicks on next lead back to the index, one click on prev at
  index 0 leads to \<open>n - 1\<close>, and next and prev yield the index plus one and minus one
  modulo \<open>n\<close>.
\<close>

theorem gallery_navigation_cyclic:
  assumes "currentGallery s = JSArray xs" and "xs \<noteq> []"
    and "0 \<le> currentIndex s" and "currentIndex s < int (length xs)"
  shows "currentIndex (((\<lambda>t. state_of (galleryNext_onclick t)) ^^ length xs) s) = currentIndex s \<and>
         (currentIndex s = 0 \<longrightarrow>
            currentIndex (state_of (galleryPrev_onclick s)) = int (length xs) - 1) \<and>
         currentIndex (state_of (galleryNext_onclick s)) = (currentIndex s + 1) mod int (length xs) \<and>
         currentIndex (state_of (galleryPrev_onclick s)) = (currentIndex s - 1) mod int (length xs)"
proof -
  let ?n = "int (length xs)"
  have len: "js_length (currentGallery s) = Some ?n" using assms(1) by simp
  have pos: "0 < ?n" using assms(2) by simp
  have "currentIndex (((\<lambda>t. state_of (galleryNext_onclick t)) ^^ length xs) s)
          = (currentIndex s + ?n) mod ?n"
    using next_iterated [OF len assms(3) assms(4), of "length xs"] by simp
  then have cyc: "currentIndex (((\<lambda>t. state_of (galleryNext_onclick t)) ^^ length xs) s) = currentIndex s"
    using assms(3,4) by simp
  have nxt: "currentIndex (state_of (galleryNext_onclick s)) = (currentIndex s + 1) mod ?n"
    using next_index [OF len pos assms(3)] .
  have prv: "currentIndex (state_of (galleryPrev_onclick s)) = (currentIndex s - 1) mod ?n"
    using prev_index [OF len pos assms(3)] .
  have "currentIndex s = 0 \<longrightarrow> currentIndex (state_of (galleryPrev_onclick s)) = ?n - 1"
  proof
    assume "currentIndex s = 0"
    then have "currentIndex (state_of (galleryPrev_onclick s)) = (- 1) mod ?n" using prv by simp
    also have "\<dots> = ?n - 1" using pos by (simp add: zmod_minus1)
    finally show "currentIndex (state_of (galleryPrev_onclick s)) = ?n - 1" .
  qed
  with cyc nxt prv show ?thesis by blast
qed

theorem gallery_navigation_cyclic_witness:
  "currentIndex (((\<lambda>t. state_of (galleryNext_onclick t)) ^^ 3) demo_open) = 0 \<and>
   currentIndex (state_of (galleryPrev_onclick demo_open)) = 2 \<and>
   currentIndex (state_of (galleryNext_onclick demo_open)) = 1"
proof -
  have a: "currentGallery demo_open = JSArray demo_items" by (simp add: demo_open_def)
  have b: "demo_items \<noteq> []" by (simp add: demo_items_def)
  have c: "0 \<le> currentIndex demo_open" by (simp add: demo_open_def)
  have d: "currentIndex demo_open < int (length demo_items)"
    by (simp add: demo_open_def demo_items_def)
  have e: "currentIndex demo_open = 0" by (simp add: demo_open_def)
  have f: "length demo_items = 3" by (simp add: demo_items_def)
  show ?thesis using gallery_navigation_cyclic [OF a b c d] e f by simp
qed

section \<open>Gallery modal: the index stays within the sequence\<close>

lemma inv_show: "gallery_inv (state_of (showGalleryItem s)) = gallery_inv s"
  by (simp add: gallery_inv_def showGalleryItem_keeps cong: option.case_cong)

lemma inv_card: "gallery_inv s \<Longrightarrow> gallery_inv (state_of (card_onclick thumbnail c s))"
proof -
  assume inv: "gallery_inv s"
  show ?thesis
  proof (cases "thumbnail \<or> card_category c = None \<or> card_category c = Some []")
    case True
    then show ?thesis using inv by (auto simp: card_onclick_def)
  next
    case False
    then obtain category where cat: "card_category c = Some category" "category \<noteq> []" "\<not> thumbnail"
      by auto
    let ?g = "or_empty (get_property (allGalleries s) category)"
    show ?thesis
    proof (cases "no_length ?g")
      case True
      then show ?thesis using cat
        by (auto simp: card_onclick_def gallery_inv_def no_length_def split: option.splits)
    next
      case False
      then obtain n where n: "js_length ?g = Some n" "n \<noteq> 0"
        by (auto simp: no_length_def split: option.splits)
      then have "0 < n" using js_length_nonneg [of ?g n] by simp
      let ?s1 = "s\<lparr>currentCategory := category, currentGallery := ?g, currentIndex := 0\<rparr>"
      have "gallery_inv ?s1" using n \<open>0 < n\<close> by (simp add: gallery_inv_def)
      then have "gallery_inv (state_of (showGalleryItem ?s1))" by (simp add: inv_show)
      moreover have "gallery_inv (state_of (card_onclick thumbnail c s))
            = gallery_inv (state_of (showGalleryItem ?s1))"
        using cat False
        by (cases "showGalleryItem ?s1")
           (simp_all add: card_onclick_def gallery_inv_def cong: option.case_cong)
      ultimately show ?thesis by simp
    qed
  qed
qed

lemma inv_next: "gallery_inv s \<Longrightarrow> gallery_inv (state_of (galleryNext_onclick s))"
proof (cases "js_length (currentGallery s)")
  case None
  assume "gallery_inv s"
  with None show ?thesis by (simp add: galleryNext_onclick_def)
next
  case (Some n)
  assume inv: "gallery_inv s"
  show ?thesis
  proof (cases "n = 0")
    case True
    with Some inv show ?thesis by (simp add: galleryNext_onclick_def)
  next
    case False
    with Some have pos: "0 < n" using js_length_nonneg [of "currentGallery s" n] by simp
    from inv Some False have i: "0 \<le> currentIndex s" by (simp add: gallery_inv_def)
    have "currentIndex (state_of (galleryNext_onclick s)) = (currentIndex s + 1) mod n"
      using next_index [OF Some pos i] .
    then show ?thesis using pos Some
      by (simp add: gallery_inv_def next_gallery)
  qed
qed

lemma inv_prev: "gallery_inv s \<Longrightarrow> gallery_inv (state_of (galleryPrev_onclick s))"
proof (cases "js_length (currentGallery s)")
  case None
  assume "gallery_inv s"
  with None show ?thesis by (simp add: galleryPrev_onclick_def)
next
  case (Some n)
  assume inv: "gallery_inv s"
  show ?thesis
  proof (cases "n = 0")
    case True
    with Some inv show ?thesis by (simp add: galleryPrev_onclick_def)
  next
    case False
    with Some have pos: "0 < n" using js_length_nonneg [of "currentGallery s" n] by simp
    from inv Some False have i: "0 \<le> currentIndex s" by (simp add: gallery_inv_def)
    have "currentIndex (state_of (galleryPrev_onclick s)) = (currentIndex s - 1) mod n"
      using prev_index [OF Some pos i] .
    then show ?thesis using pos Some
      by (simp add: gallery_inv_def prev_gallery)
  qed
qed

lemma inv_click:
  "(\<And>t. gallery_inv t \<Longrightarrow> gallery_inv (state_of (listener t))) \<Longrightarrow> gallery_inv s \<Longrightarrow>
   gallery_inv (click present listener s)"
  by (simp add: click_def)

lemma inv_close: "gallery_inv (closeGallery b s)"
  by (simp add: closeGallery_def gallery_inv_def)

lemma inv_manifest: "gallery_inv (manifest_settled r s) = gallery_inv s"
  by (cases r) (simp_all add: manifest_settled_def gallery_inv_def cong: option.case_cong)

lemma inv_init: "gallery_inv init_gallery"
  by (simp add: init_gallery_def gallery_inv_def)

lemma inv_step: "gallery_inv s \<Longrightarrow> gallery_inv (gallery_step b ctl ev s)"
proof (cases ev)
  case (CardClick thumbnail c)
  assume "gallery_inv s"
  with CardClick show ?thesis by (simp add: inv_card)
next
  case PrevClick
  assume "gallery_inv s"
  with PrevClick show ?thesis by (simp add: inv_click inv_prev)
next
  case NextClick
  assume "gallery_inv s"
  with NextClick show ?thesis by (simp add: inv_click inv_next)
next
  case CloseClick
  assume "gallery_inv s"
  with CloseClick show ?thesis by (simp add: inv_close)
next
  case (ModalClick t)
  assume "gallery_inv s"
  with ModalClick show ?thesis by (simp add: galleryModal_onclick_def inv_close)
next
  case (KeyDown key)
  assume "gallery_inv s"
  with KeyDown show ?thesis
    by (simp add: gallery_onkeydown_def inv_close inv_click inv_next inv_prev)
next
  case (ManifestSettled r)
  assume "gallery_inv s"
  with ManifestSettled show ?thesis by (simp add: inv_manifest)
qed

lemma inv_run: "gallery_inv s \<Longrightarrow> gallery_inv (gallery_run b ctl evs s)"
  unfolding gallery_run_def by (induction evs arbitrary: s) (simp_all add: inv_step)

text \<open>
  C2. The session invariant holds when the page has loaded and every transition of the
  gallery (card click, prev, next, the three ways to close, a key press, the manifest
  arriving) preserves it; so in every state the gallery reaches, a non-empty sequence
  comes with an index from 0 up to its length, exclusive.
\<close>

theorem gallery_index_invariant:
  "gallery_inv init_gallery \<and>
   (gallery_inv s \<longrightarrow> gallery_inv (gallery_step b ctl ev s)) \<and>
   (currentGallery (gallery_run b ctl evs init_gallery) = JSArray xs \<and> xs \<noteq> [] \<longrightarrow>
      0 \<le> currentIndex (gallery_run b ctl evs init_gallery) \<and>
      currentIndex (gallery_run b ctl evs init_gallery) < int (length xs))"
proof -
  have "gallery_inv (gallery_run b ctl evs init_gallery)"
    by (rule inv_run) (rule inv_init)
  then have "currentGallery (gallery_run b ctl evs init_gallery) = JSArray xs \<and> xs \<noteq> [] \<longrightarrow>
      0 \<le> currentIndex (gallery_run b ctl evs init_gallery) \<and>
      currentIndex (gallery_run b ctl evs init_gallery) < int (length xs)"
    by (auto simp: gallery_inv_def)
  then show ?thesis using inv_init inv_step by blast
qed

lemma demo_run:
  "gallery_run demo_browser demo_controls demo_events init_gallery =
     demo_open\<lparr>currentIndex := 2,
       galleryItemsContainer := Wrapper (Anchor ''report.pdf'' ''View Document'') None\<rparr>"
  by (simp add: gallery_run_def demo_events_def demo_manifest_def demo_card_def demo_items_def
        demo_controls_def demo_open_def init_gallery_def manifest_settled_def card_onclick_def
        card_category_def get_property_def or_empty_def no_length_def showGalleryItem_def
        create_element_def caption_of_def or_string_def click_def galleryNext_onclick_def
        galleryPrev_onclick_def gallery_onkeydown_def js_rem_def)

theorem gallery_index_invariant_witness:
  "gallery_inv demo_video \<and>
   gallery_inv (gallery_step demo_browser demo_controls NextClick demo_video) \<and>
   currentGallery (gallery_run demo_browser demo_controls demo_events init_gallery) = JSArray demo_items \<and>
   demo_items \<noteq> [] \<and>
   currentIndex (gallery_run demo_browser demo_controls demo_events init_gallery) = 2 \<and>
   currentIndex (gallery_run demo_browser demo_controls demo_events init_gallery)
     < int (length demo_items)"
proof -
  have a: "gallery_inv demo_video"
    by (simp add: gallery_inv_def demo_video_def demo_open_def demo_items_def)
  have b: "currentGallery (gallery_run demo_browser demo_controls demo_events init_gallery)
             = JSArray demo_items"
    by (simp add: demo_run demo_open_def)
  have c: "demo_items \<noteq> []" by (simp add: demo_items_def)
  have d: "currentIndex (gallery_run demo_browser demo_controls demo_events init_gallery) = 2"
    by (simp add: demo_run)
  show ?thesis
    using a b c d
      gallery_index_invariant [of demo_video demo_browser demo_controls NextClick demo_events demo_items]
    by simp
qed


section \<open>Gallery modal: opening a category\<close>

text \<open>
  A card whose category the manifest maps to a non-empty sequence: the index is 0, the
  container holds the wrapper with the one element built for the first item, and the
  modal is shown.
\<close>

lemma card_onclick_items:
  assumes "\<not> thumbnail" and "card_category c = Some category" and "category \<noteq> []"
    and "allGalleries s category = Some (x # xs)"
  shows "card_onclick thumbnail c s =
     Returns (s\<lparr>currentCategory := category, currentGallery := JSArray (x # xs),
                currentIndex := 0,
                galleryItemsContainer := Wrapper (create_element category x) (caption_of x),
                galleryModal_display := ''flex'', body_overflow := ''hidden''\<rparr>)"
  using assms
  by (simp add: card_onclick_def get_property_def or_empty_def no_length_def showGalleryItem_def)

text \<open>
  A card whose category the manifest maps to the empty sequence, or does not map and
  Object.prototype does not know either: the message is rendered and the modal is shown.
\<close>

lemma card_onclick_no_items:
  assumes "\<not> thumbnail" and "card_category c = Some category" and "category \<noteq> []"
    and "allGalleries s category = Some [] \<or>
         (allGalleries s category = None \<and> object_prototype category = None)"
  shows "card_onclick thumbnail c s =
     Returns (s\<lparr>currentCategory := category, currentGallery := JSArray [],
                galleryItemsContainer := InnerHTML (no_items_html category),
                galleryModal_display := ''flex'', body_overflow := ''hidden''\<rparr>)"
  using assms
  by (auto simp: card_onclick_def get_property_def or_empty_def no_length_def)

text \<open>
  C3. Opening a category that the manifest lacks is meant to render the message, show
  the modal and not throw. For the category \<^verbatim>\<open>constructor\<close>, before the manifest has
  loaded, the lookup yields the inherited function of length 1, the listener takes the
  branch for a non-empty gallery, and \<^verbatim>\<open>showGalleryItem\<close> throws on the missing item:
  the container is left empty and the modal is not shown.
\<close>

theorem open_inherited_name_throws:
  "card_onclick False constructor_card init_gallery =
     Throws TypeError
       (init_gallery\<lparr>currentCategory := ''constructor'', currentGallery := JSFunction 1\<rparr>)"
  by (simp add: card_onclick_def card_category_def get_property_def object_prototype_def
        or_empty_def no_length_def showGalleryItem_def init_gallery_def constructor_card_def)

section \<open>Gallery modal: the manifest fails to load\<close>

lemma manifest_failure:
  "r = NetworkError \<or> r = InvalidJSON \<Longrightarrow>
   manifest_settled r s =
     s\<lparr>gallery_effects := gallery_effects s @ [ConsoleError ''Failed to load gallery.json''],
       allGalleries := Map.empty\<rparr>"
  by (auto simp: manifest_settled_def)

lemma card_onclick_manifest:
  "allGalleries (state_of (card_onclick thumbnail c s)) = allGalleries s"
proof (cases "thumbnail \<or> card_category c = None \<or> card_category c = Some []")
  case True
  then show ?thesis by (auto simp: card_onclick_def)
next
  case False
  then obtain category where cat: "card_category c = Some category" "category \<noteq> []" "\<not> thumbnail"
    by auto
  let ?t = "s\<lparr>currentCategory := category,
               currentGallery := or_empty (get_property (allGalleries s) category),
               currentIndex := 0\<rparr>"
  have "allGalleries (state_of (showGalleryItem ?t)) = allGalleries s"
    by (simp add: showGalleryItem_keeps)
  then show ?thesis using cat
    by (cases "showGalleryItem ?t") (simp_all add: card_onclick_def Let_def)
qed

lemma closeGallery_manifest: "allGalleries (closeGallery b s) = allGalleries s"
  by (simp add: closeGallery_def video_pause_def Let_def)

lemma click_manifest:
  "(\<And>t. allGalleries (state_of (listener t)) = allGalleries t) \<Longrightarrow>
   allGalleries (click present listener s) = allGalleries s"
  by (simp add: click_def)

lemma next_manifest: "allGalleries (state_of (galleryNext_onclick s)) = allGalleries s"
  by (simp add: galleryNext_onclick_def showGalleryItem_keeps split: option.splits)

lemma prev_manifest: "allGalleries (state_of (galleryPrev_onclick s)) = allGalleries s"
  by (simp add: galleryPrev_onclick_def showGalleryItem_keeps split: option.splits)

text \<open>No event of the page replaces the manifest; only the fetch does, once.\<close>

lemma page_events_keep_manifest:
  "\<forall>r. ev \<noteq> ManifestSettled r \<Longrightarrow> allGalleries (gallery_step b ctl ev s) = allGalleries s"
  by (cases ev)
     (simp_all add: card_onclick_manifest closeGallery_manifest click_manifest next_manifest
        prev_manifest galleryModal_onclick_def gallery_onkeydown_def)

text \<open>
  C8. After a failed load the mapping is empty and the failure is logged, and a category
  is then meant to open with the message. For the category \<^verbatim>\<open>constructor\<close> the
  listener throws instead, as it does before the manifest has loaded.
\<close>

theorem failed_manifest_inherited_name_throws:
  "card_onclick False constructor_card (manifest_settled NetworkError init_gallery) =
     Throws TypeError
       (init_gallery\<lparr>currentCategory := ''constructor'', currentGallery := JSFunction 1,
          gallery_effects := [ConsoleError ''Failed to load gallery.json'']\<rparr>)"
  by (simp add: manifest_settled_def card_onclick_def card_category_def get_property_def
        object_prototype_def or_empty_def no_length_def showGalleryItem_def init_gallery_def
        constructor_card_def)

section \<open>Gallery modal: closing and the keyboard\<close>

lemma closeGallery_fields:
  "galleryModal_display (closeGallery b s) = ''none''"
  "body_overflow (closeGallery b s) = ''auto''"
  "galleryItemsContainer (closeGallery b s) = InnerHTML ''''"
  "currentGallery (closeGallery b s) = JSArray []"
  "currentIndex (closeGallery b s) = 0"
  "currentCategory (closeGallery b s) = ''''"
  "gallery_effects (closeGallery b s) =
     gallery_effects s @ (if has_video b (galleryItemsContainer s) then [VideoPause] else [])"
  by (simp_all add: closeGallery_def video_pause_def Let_def)

lemma card_onclick_index:
  assumes "currentIndex s = 0"
  shows "currentIndex (state_of (card_onclick thumbnail c s)) = 0"
proof (cases "thumbnail \<or> card_category c = None \<or> card_category c = Some []")
  case True
  then show ?thesis using assms by (auto simp: card_onclick_def)
next
  case False
  then obtain category where cat: "card_category c = Some category" "category \<noteq> []" "\<not> thumbnail"
    by auto
  let ?t = "s\<lparr>currentCategory := category,
               currentGallery := or_empty (get_property (allGalleries s) category),
               currentIndex := 0\<rparr>"
  have "currentIndex (state_of (showGalleryItem ?t)) = 0"
    by (simp add: showGalleryItem_keeps)
  then show ?thesis using cat assms
    by (cases "showGalleryItem ?t") (simp_all add: card_onclick_def Let_def)
qed

text \<open>
  C4. Closing hides the modal, restores page scroll, empties the container and resets
  the sequence, the index and the category; a video in the container gets its
  \<^verbatim>\<open>pause()\<close> called, and whether that call throws makes no difference. The close
  control, a click on the backdrop and Escape while the modal is shown all close, and
  whatever card is clicked next, the index is 0 afterwards.
\<close>

theorem gallery_close_resets:
  "galleryModal_display (closeGallery b s) = ''none'' \<and>
   body_overflow (closeGallery b s) = ''auto'' \<and>
   galleryItemsContainer (closeGallery b s) = InnerHTML '''' \<and>
   currentGallery (closeGallery b s) = JSArray [] \<and>
   currentIndex (closeGallery b s) = 0 \<and>
   currentCategory (closeGallery b s) = '''' \<and>
   gallery_effects (closeGallery b s) =
     gallery_effects s @ (if has_video b (galleryItemsContainer s) then [VideoPause] else []) \<and>
   closeGallery (b\<lparr>pause_throws := True\<rparr>) s = closeGallery (b\<lparr>pause_throws := False\<rparr>) s \<and>
   (galleryClose ctl \<longrightarrow> gallery_step b ctl CloseClick s = closeGallery b s) \<and>
   gallery_step b ctl (ModalClick True) s = closeGallery b s \<and>
   (galleryModal_display s = ''flex'' \<longrightarrow>
      gallery_step b ctl (KeyDown ''Escape'') s = closeGallery b s) \<and>
   currentIndex (gallery_step b ctl (CardClick thumbnail c) (closeGallery b s)) = 0"
proof -
  have "has_video (b\<lparr>pause_throws := True\<rparr>) (galleryItemsContainer s)
        = has_video (b\<lparr>pause_throws := False\<rparr>) (galleryItemsContainer s)"
    by (cases "(b, galleryItemsContainer s)" rule: has_video.cases) simp_all
  then have "closeGallery (b\<lparr>pause_throws := True\<rparr>) s = closeGallery (b\<lparr>pause_throws := False\<rparr>) s"
    by (simp add: closeGallery_def video_pause_def)
  moreover have "currentIndex (gallery_step b ctl (CardClick thumbnail c) (closeGallery b s)) = 0"
    by (simp add: card_onclick_index closeGallery_fields)
  ultimately show ?thesis
    by (simp add: closeGallery_fields galleryModal_onclick_def gallery_onkeydown_def)
qed

theorem gallery_close_resets_witness:
  "gallery_effects (closeGallery demo_browser demo_video) = [VideoPause] \<and>
   currentGallery (closeGallery demo_browser demo_video) = JSArray [] \<and>
   currentIndex (closeGallery demo_browser demo_video) = 0 \<and>
   galleryClose demo_controls \<and>
   gallery_step demo_browser demo_controls CloseClick demo_video
     = closeGallery demo_browser demo_video \<and>
   galleryModal_display demo_video = ''flex'' \<and>
   gallery_step demo_browser demo_controls (KeyDown ''Escape'') demo_video
     = closeGallery demo_browser demo_video \<and>
   currentIndex (gallery_step demo_browser demo_controls (CardClick False demo_card)
     (closeGallery demo_browser demo_video)) = 0"
proof -
  have a: "galleryClose demo_controls" by (simp add: demo_controls_def)
  have b: "galleryModal_display demo_video = ''flex''"
    by (simp add: demo_video_def demo_open_def)
  have c: "has_video demo_browser (galleryItemsContainer demo_video)"
    by (simp add: demo_video_def)
  have d: "gallery_effects demo_video = []" by (simp add: demo_video_def demo_open_def)
  show ?thesis
    using a b c d gallery_close_resets [of demo_browser demo_video demo_controls False demo_card]
    by simp
qed

lemma keys_ignored:
  "galleryModal_display s \<noteq> ''flex'' \<Longrightarrow> gallery_run b ctl (map KeyDown keys) s = s"
  unfolding gallery_run_def by (induction keys) (simp_all add: gallery_onkeydown_def)

text \<open>
  C9. While the modal is shown, ArrowRight acts as a click on next, ArrowLeft as a click
  on prev and Escape closes; while it is not shown, no key press and no sequence of key
  presses changes the state.
\<close>

theorem gallery_keyboard_gated:
  "(galleryModal_display s = ''flex'' \<longrightarrow>
      gallery_step b ctl (KeyDown ''ArrowRight'') s = gallery_step b ctl NextClick s \<and>
      gallery_step b ctl (KeyDown ''ArrowLeft'') s = gallery_step b ctl PrevClick s \<and>
      gallery_step b ctl (KeyDown ''Escape'') s = closeGallery b s) \<and>
   (galleryModal_display s \<noteq> ''flex'' \<longrightarrow>
      gallery_step b ctl (KeyDown key) s = s \<and>
      gallery_run b ctl (map KeyDown keys) s = s)"
  using keys_ignored [of s b ctl keys] by (simp add: gallery_onkeydown_def)

theorem gallery_keyboard_gated_witness:
  "galleryModal_display demo_open = ''flex'' \<and>
   currentIndex (gallery_step demo_browser demo_controls (KeyDown ''ArrowRight'') demo_open) = 1 \<and>
   currentIndex (gallery_step demo_browser demo_controls (KeyDown ''ArrowLeft'') demo_open) = 2 \<and>
   galleryModal_display (gallery_step demo_browser demo_controls (KeyDown ''Escape'') demo_open)
     = ''none'' \<and>
   galleryModal_display (closeGallery demo_browser demo_open) \<noteq> ''flex'' \<and>
   gallery_run demo_browser demo_controls (map KeyDown [''ArrowRight'', ''Escape''])
     (closeGallery demo_browser demo_open) = closeGallery demo_browser demo_open"
proof -
  have a: "galleryModal_display demo_open = ''flex''" by (simp add: demo_open_def)
  have b: "galleryModal_display (closeGallery demo_browser demo_open) \<noteq> ''flex''"
    by (simp add: closeGallery_fields)
  have c: "currentIndex (gallery_step demo_browser demo_controls NextClick demo_open) = 1"
    by (simp add: demo_controls_def demo_open_def demo_items_def click_def
          galleryNext_onclick_def showGalleryItem_keeps js_rem_def)
  have d: "currentIndex (gallery_step demo_browser demo_controls PrevClick demo_open) = 2"
    by (simp add: demo_controls_def demo_open_def demo_items_def click_def
          galleryPrev_onclick_def showGalleryItem_keeps js_rem_def)
  show ?thesis
    using a b c d
      gallery_keyboard_gated [of demo_open demo_browser demo_controls]
      gallery_keyboard_gated [of "closeGallery demo_browser demo_open" demo_browser demo_controls
        "''ArrowRight''" "[''ArrowRight'', ''Escape'']"]
    by (simp add: closeGallery_fields)
qed

section \<open>Filter controller: what a click shows\<close>

lemma apply_filter_display:
  "style_display (apply_filter f item) =
     (if f = Some ''all'' \<or> Some (item_cat item) = f then '''' else ''none'')"
  by (simp add: apply_filter_def)

lemma apply_filter_cat: "item_cat (apply_filter f item) = item_cat item"
  by (simp add: apply_filter_def item_cat_def)

lemma filter_onclick_items:
  assumes "i < length (filterBtns sec)" "items sec \<noteq> []"
  shows "items (filter_onclick i sec) =
           map (apply_filter (data_filter (filterBtns sec ! i))) (items sec)"
  using assms by (auto simp: filter_onclick_def Let_def)

text \<open>
  C7. A click on a filter button keeps the items and their tags; with the value
  \<^verbatim>\<open>all\<close> every item is shown, and with any other value an item is shown when its tag
  (the first non-empty one of category, project and gallery) equals the value and is
  hidden otherwise.
\<close>

theorem filter_semantics:
  assumes "i < length (filterBtns sec)" and "items sec \<noteq> []"
    and "j < length (items sec)"
  shows "length (items (filter_onclick i sec)) = length (items sec) \<and>
         item_cat (items (filter_onclick i sec) ! j) = item_cat (items sec ! j) \<and>
         (data_filter (filterBtns sec ! i) = Some ''all'' \<longrightarrow>
            style_display (items (filter_onclick i sec) ! j) = '''') \<and>
         (data_filter (filterBtns sec ! i) \<noteq> Some ''all'' \<longrightarrow>
            (if Some (item_cat (items sec ! j)) = data_filter (filterBtns sec ! i)
             then style_display (items (filter_onclick i sec) ! j) = ''''
             else style_display (items (filter_onclick i sec) ! j) = ''none''))"
  using assms by (simp add: filter_onclick_items apply_filter_display apply_filter_cat)

theorem filter_semantics_witness:
  "style_display (items (filter_onclick 1 demo_section) ! 0) = '''' \<and>
   style_display (items (filter_onclick 1 demo_section) ! 1) = ''none'' \<and>
   style_display (items (filter_onclick 0 demo_section) ! 1) = ''''"
proof -
  have a: "(1::nat) < length (filterBtns demo_section)" "items demo_section \<noteq> []"
    "(0::nat) < length (items demo_section)" "(1::nat) < length (items demo_section)"
    "(0::nat) < length (filterBtns demo_section)"
    by (simp_all add: demo_section_def)
  have f: "data_filter (filterBtns demo_section ! 1) = Some ''web''"
    "data_filter (filterBtns demo_section ! 0) = Some ''all''"
    by (simp_all add: demo_section_def)
  have c: "item_cat (items demo_section ! 0) = ''web''" "item_cat (items demo_section ! 1) = ''robots''"
    by (simp_all add: demo_section_def item_cat_def)
  have first: "style_display (items (filter_onclick 1 demo_section) ! 0) = ''''"
    using filter_semantics [OF a(1) a(2) a(3)] f c by simp
  have second: "style_display (items (filter_onclick 1 demo_section) ! 1) = ''none''"
    using filter_semantics [OF a(1) a(2) a(4)] f c by simp
  have third: "style_display (items (filter_onclick 0 demo_section) ! 1) = ''''"
    using filter_semantics [OF a(5) a(2) a(4)] f by simp
  show ?thesis using first second third by simp
qed

section \<open>Contact form: what a submission shows\<close>

lemma error_message_server:
  "get_message json = Some m \<Longrightarrow> truthy m \<Longrightarrow> error_message (Body json) = m"
  by (cases json) (simp_all add: error_message_def)

lemma error_message_fallback:
  "b = NotJSON \<or>
   (\<exists>json. b = Body json \<and>
      (get_message json = None \<or> (\<exists>m. get_message json = Some m \<and> \<not> truthy m))) \<Longrightarrow>
   error_message b = JStr ''Error sending message. Please try again later.''"
  by (auto simp: error_message_def Let_def)

lemma failure_alerts_once:
  "\<forall>b. r \<noteq> Response True b \<Longrightarrow>
   length (alerts (snd (contactForm_onsubmit r form))) = 1 \<and>
   entries (fst (contactForm_onsubmit r form)) = entries form \<and>
   loading (fst (contactForm_onsubmit r form)) = False"
  by (cases r) (auto simp: contactForm_onsubmit_def)

text \<open>
  C6. An ok response resets the form and alerts the success message. A response that is
  not ok alerts the truthy \<^verbatim>\<open>message\<close> member of its JSON body, as for the body with
  the message \<^verbatim>\<open>Invalid email\<close>, and a generic message when the body is not JSON or has
  no truthy \<^verbatim>\<open>message\<close>. A rejected request alerts a generic message too. Every
  submission that does not end in an ok response alerts exactly once and leaves the
  fields as they are.
\<close>

theorem contact_form_outcomes:
  "contactForm_onsubmit (Response True b) form =
     (form\<lparr>entries := default_entries form, loading := False\<rparr>,
      [Post (endpoint form) (dataObj form),
       Alert (JStr ''Your message has been sent successfully!'')]) \<and>
   (get_message json = Some m \<and> truthy m \<longrightarrow>
      alerts (snd (contactForm_onsubmit (Response False (Body json)) form)) = [m]) \<and>
   alerts (snd (contactForm_onsubmit
      (Response False (Body (JObj [(''message'', JStr ''Invalid email'')]))) form))
     = [JStr ''Invalid email''] \<and>
   (b = NotJSON \<or>
    (\<exists>j. b = Body j \<and>
       (get_message j = None \<or> (\<exists>v. get_message j = Some v \<and> \<not> truthy v))) \<longrightarrow>
      alerts (snd (contactForm_onsubmit (Response False b) form))
        = [JStr ''Error sending message. Please try again later.'']) \<and>
   alerts (snd (contactForm_onsubmit Rejected form))
     = [JStr ''An error occurred while sending your message. Please try again.''] \<and>
   ((\<forall>b'. r \<noteq> Response True b') \<longrightarrow>
      length (alerts (snd (contactForm_onsubmit r form))) = 1 \<and>
      entries (fst (contactForm_onsubmit r form)) = entries form \<and>
      loading (fst (contactForm_onsubmit r form)) = False)"
proof -
  have ok: "contactForm_onsubmit (Response True b) form =
     (form\<lparr>entries := default_entries form, loading := False\<rparr>,
      [Post (endpoint form) (dataObj form),
       Alert (JStr ''Your message has been sent successfully!'')])"
    by (simp add: contactForm_onsubmit_def)
  have server: "get_message json = Some m \<and> truthy m \<longrightarrow>
      alerts (snd (contactForm_onsubmit (Response False (Body json)) form)) = [m]"
    by (simp add: contactForm_onsubmit_def error_message_server)
  have example: "alerts (snd (contactForm_onsubmit
      (Response False (Body (JObj [(''message'', JStr ''Invalid email'')]))) form))
     = [JStr ''Invalid email'']"
    by (simp add: contactForm_onsubmit_def error_message_def)
  have fallback: "b = NotJSON \<or>
    (\<exists>j. b = Body j \<and>
       (get_message j = None \<or> (\<exists>v. get_message j = Some v \<and> \<not> truthy v))) \<longrightarrow>
      alerts (snd (contactForm_onsubmit (Response False b) form))
        = [JStr ''Error sending message. Please try again later.'']"
  proof
    assume "b = NotJSON \<or>
      (\<exists>j. b = Body j \<and>
         (get_message j = None \<or> (\<exists>v. get_message j = Some v \<and> \<not> truthy v)))"
    then have "error_message b = JStr ''Error sending message. Please try again later.''"
      by (rule error_message_fallback)
    then show "alerts (snd (contactForm_onsubmit (Response False b) form))
        = [JStr ''Error sending message. Please try again later.'']"
      by (simp add: contactForm_onsubmit_def)
  qed
  have rejected: "alerts (snd (contactForm_onsubmit Rejected form))
     = [JStr ''An error occurred while sending your message. Please try again.'']"
    by (simp add: contactForm_onsubmit_def)
  from ok server example fallback rejected failure_alerts_once [of r form]
  show ?thesis by blast
qed

theorem contact_form_outcomes_witness:
  "get_message (JObj [(''code'', JNum (3::int)), (''message'', JStr ''Mailbox full'')])
     = Some (JStr ''Mailbox full'') \<and>
   truthy (JStr ''Mailbox full'' :: int json) \<and>
   alerts (snd (contactForm_onsubmit
      (Response False (Body (JObj [(''code'', JNum (3::int)), (''message'', JStr ''Mailbox full'')])))
      demo_form)) = [JStr ''Mailbox full''] \<and>
   entries (fst (contactForm_onsubmit (Response True (NotJSON :: int body)) demo_form))
     = [(''email'', ''''), (''text'', '''')] \<and>
   alerts (snd (contactForm_onsubmit (Response False (NotJSON :: int body)) demo_form))
     = [JStr ''Error sending message. Please try again later.''] \<and>
   length (alerts (snd (contactForm_onsubmit (Rejected :: int fetch_result) demo_form))) = 1 \<and>
   entries (fst (contactForm_onsubmit (Rejected :: int fetch_result) demo_form))
     = [(''email'', ''me''), (''text'', ''hello'')]"
proof -
  let ?json = "JObj [(''code'', JNum (3::int)), (''message'', JStr ''Mailbox full'')]"
  have a: "get_message ?json = Some (JStr ''Mailbox full'')" by simp
  have b: "truthy (JStr ''Mailbox full'' :: int json)" by simp
  have c: "\<forall>b'. (Rejected :: int fetch_result) \<noteq> Response True b'" by simp
  have d: "default_entries demo_form = [(''email'', ''''), (''text'', '''')]"
    "entries demo_form = [(''email'', ''me''), (''text'', ''hello'')]"
    by (simp_all add: demo_form_def)
  show ?thesis
    using a b c d
      contact_form_outcomes [of NotJSON demo_form ?json "JStr ''Mailbox full''" Rejected]
    by auto
qed

section \<open>Certificate modal: the download control\<close>

lemma download_with_url:
  "currentCertificateUrl s \<noteq> [] \<Longrightarrow>
   downloads (download_onclick s) =
     downloads s @ [(currentCertificateUrl s, download_name (currentCertificateTitle s))]"
  by (simp add: download_onclick_def)

text \<open>
  C10. With no certificate address captured, a click on the download control changes
  nothing and records no download; that is the case when the page has loaded and once
  the timer of a close has run.
\<close>

theorem download_without_url_noop:
  "(currentCertificateUrl s = [] \<longrightarrow> download_onclick s = s) \<and>
   download_onclick init_cert = init_cert \<and>
   download_onclick (close_timeout s) = close_timeout s"
  by (simp add: download_onclick_def init_cert_def close_timeout_def)

theorem download_without_url_noop_witness:
  "currentCertificateUrl init_cert = [] \<and>
   download_onclick init_cert = init_cert \<and>
   downloads (download_onclick (close_timeout (closeCertificateModal
      (state_of (thumbnail_onclick True ''aws.jpg'' None init_cert))))) = []"
proof -
  let ?s = "closeCertificateModal (state_of (thumbnail_onclick True ''aws.jpg'' None init_cert))"
  have a: "currentCertificateUrl init_cert = []" by (simp add: init_cert_def)
  have b: "downloads (close_timeout ?s) = []"
    by (simp add: close_timeout_def closeCertificateModal_def thumbnail_onclick_def init_cert_def
          Let_def)
  show ?thesis
    using a b download_without_url_noop [of init_cert] download_without_url_noop [of ?s]
    by simp
qed

section \<open>Certificate modal: the download file name\<close>

lemma replace_spaces_run:
  assumes "\<forall>c \<in> set w. \<not> is_space c" "sp \<noteq> []" "\<forall>c \<in> set sp. is_space c"
    "rest = [] \<or> \<not> is_space (hd rest)"
  shows "replace_spaces (w @ sp @ rest) = w @ 0x5F # replace_spaces rest"
  using assms
proof (induction w)
  case Nil
  then obtain c cs where sp: "sp = c # cs" by (cases sp) auto
  with Nil have "dropWhile is_space (cs @ rest) = rest"
    by (cases rest) (auto simp: dropWhile_append)
  with Nil sp show ?case by simp
next
  case (Cons a w)
  then show ?case by simp
qed

lemma replace_spaces_id: "\<forall>c \<in> set t. \<not> is_space c \<Longrightarrow> replace_spaces t = t"
  by (induction t) auto

lemma kept_not_space: "kept c \<Longrightarrow> \<not> is_space c"
  unfolding kept_def is_space_def is_word_char_def
  by (auto simp: word_le_def word_less_def)

lemma safeTitle_kept: "c \<in> set (safeTitle t) \<Longrightarrow> is_word_char c \<or> c = 0x2D \<or> c = 0x2E"
  by (auto simp: safeTitle_def kept_def is_word_char_def)

lemma download_name_id:
  assumes "\<forall>c \<in> set t. kept c" "t \<noteq> []"
  shows "download_name t = t @ ascii ''.jpg''"
proof -
  have "replace_spaces t = t" using assms(1) by (simp add: replace_spaces_id kept_not_space)
  moreover have "filter kept t = t" using assms(1) by simp
  ultimately show ?thesis using assms(2) by (simp add: download_name_def safeTitle_def)
qed

text \<open>
  C5, as the script has it. The file name is the title (\<^verbatim>\<open>certificate\<close> for an empty
  one) with every run of white space replaced by one underscore and then every
  character dropped that is not a word character, a hyphen or a dot, followed by
  \<^verbatim>\<open>.jpg\<close>. So a title made of such characters only is kept as it is, and
  \<^verbatim>\<open>AWS Certified!! 2021\<close> gives \<^verbatim>\<open>AWS_Certified_2021.jpg\<close>.
\<close>

theorem download_name_sanitized:
  "download_name t =
     filter kept (replace_spaces (if t = [] then ascii ''certificate'' else t)) @ ascii ''.jpg'' \<and>
   (\<forall>c \<in> set (safeTitle t). is_word_char c \<or> c = 0x2D \<or> c = 0x2E) \<and>
   ((\<forall>c \<in> set w. \<not> is_space c) \<and> sp \<noteq> [] \<and> (\<forall>c \<in> set sp. is_space c) \<and>
      (rest = [] \<or> \<not> is_space (hd rest)) \<longrightarrow>
      replace_spaces (w @ sp @ rest) = w @ 0x5F # replace_spaces rest) \<and>
   ((\<forall>c \<in> set t. kept c) \<and> t \<noteq> [] \<longrightarrow> download_name t = t @ ascii ''.jpg'') \<and>
   download_name (ascii ''AWS Certified!! 2021'') = ascii ''AWS_Certified_2021.jpg''"
proof -
  have "download_name (ascii ''AWS Certified!! 2021'') = ascii ''AWS_Certified_2021.jpg''"
    by (simp add: download_name_def safeTitle_def ascii_def is_space_def kept_def is_word_char_def)
  then show ?thesis
    using safeTitle_kept [of _ t] replace_spaces_run [of w sp rest] download_name_id [of t]
    by (auto simp: download_name_def safeTitle_def)
qed

theorem download_name_sanitized_witness:
  "replace_spaces (ascii ''AWS'' @ [0x20, 0x09] @ ascii ''Certified'')
     = ascii ''AWS'' @ 0x5F # replace_spaces (ascii ''Certified'') \<and>
   download_name (ascii ''Node.js-v2'') = ascii ''Node.js-v2'' @ ascii ''.jpg''"
proof -
  have a: "\<forall>c \<in> set (ascii ''AWS''). \<not> is_space c" by (simp add: ascii_def is_space_def)
  have b: "[0x20, 0x09] \<noteq> ([] :: jsstring)" by simp
  have c: "\<forall>c \<in> set [0x20, 0x09 :: 16 word]. is_space c" by (simp add: is_space_def)
  have d: "ascii ''Certified'' = [] \<or> \<not> is_space (hd (ascii ''Certified''))"
    by (simp add: ascii_def is_space_def)
  have e: "\<forall>c \<in> set (ascii ''Node.js-v2''). kept c"
    by (simp add: ascii_def kept_def is_word_char_def)
  have f: "ascii ''Node.js-v2'' \<noteq> []" by (simp add: ascii_def)
  show ?thesis
    using a b c d e f
      download_name_sanitized [of "ascii ''Node.js-v2''" "ascii ''AWS''" "[0x20, 0x09]" "ascii ''Certified''"]
    by blast
qed

text \<open>
  The file name differs from the one the specification words: the dot and the hyphen
  of a title stay, and an empty title gives \<^verbatim>\<open>certificate.jpg\<close>.
\<close>

theorem download_name_differs_from_spec:
  "download_name (ascii ''Node.js - v2'') = ascii ''Node.js_-_v2.jpg'' \<and>
   spec_download_name (ascii ''Node.js - v2'') = ascii ''Nodejs__v2.jpg'' \<and>
   download_name (ascii ''Node.js - v2'') \<noteq> spec_download_name (ascii ''Node.js - v2'') \<and>
   download_name [] = ascii ''certificate.jpg'' \<and>
   spec_download_name [] = ascii ''.jpg''"
  by (simp add: download_name_def spec_download_name_def safeTitle_def ascii_def is_space_def
        kept_def is_word_char_def)

end
